theory Spec2Isabelle
  imports Main
begin

section \<open>Values, objects and the process state of server.js\<close>

text \<open>
  A request field (\<^verbatim>\<open>req.query.sessionId\<close>, \<^verbatim>\<open>req.body.to\<close>, ...) is either
  absent (\<^verbatim>\<open>undefined\<close>) or a string, which is what a plain \<^verbatim>\<open>k=v\<close> query
  parameter and a string-valued JSON member deliver; other JSON values and repeated
  or nested query parameters are outside the model. \<open>truthy\<close> is the test
  behind \<^verbatim>\<open>!x\<close>; \<open>to_str\<close> is the conversion a template literal applies.
\<close>

datatype jsval = Undefined | Str string

fun truthy :: "jsval \<Rightarrow> bool" where
  "truthy Undefined = False"
| "truthy (Str s) = (s \<noteq> [])"

fun to_str :: "jsval \<Rightarrow> string" where
  "to_str Undefined = ''undefined''"
| "to_str (Str s) = s"

text \<open>
  Session objects and adapter instances are heap objects: the registry maps an
  identifier to the address of a session object, the session object holds the
  address of its adapter, and the closures registered on the adapter hold the
  addresses they captured. Addresses are handed out by two counters.
\<close>

type_synonym sref = nat
type_synonym cref = nat

record session =
  client :: cref
  ready :: bool
  qrDataUrl :: "string option"

datatype event_name = QR | READY | AUTH_FAILURE | DISCONNECTED

text \<open>
  The four function literals of \<^verbatim>\<open>initSession\<close>, each with the variables it
  captures: \<^verbatim>\<open>sessionId\<close>, \<^verbatim>\<open>session\<close> and, for the last one, \<^verbatim>\<open>client\<close>.
\<close>

datatype listener =
    QrListener jsval sref
  | ReadyListener jsval sref
  | AuthFailureListener jsval sref
  | DisconnectedListener jsval sref cref

text \<open>
  The adapter (\<^verbatim>\<open>Client\<close> of whatsapp-web.js) is an external collaborator. The
  model keeps of it what server.js does to it: the \<^verbatim>\<open>clientId\<close> it was
  constructed with, the listeners registered with \<^verbatim>\<open>on\<close>, how often
  \<^verbatim>\<open>initialize\<close> was called and the arguments of every \<^verbatim>\<open>sendMessage\<close> call.
  The synchronous part of \<^verbatim>\<open>initialize\<close> is taken to return normally.
\<close>

record client_obj =
  clientId :: jsval
  listeners :: "(event_name \<times> listener) list"
  initialize_calls :: nat
  sendMessage_calls :: "(string \<times> jsval) list"

datatype console_line = Log "string list" | Error "string list"

text \<open>
  An \<^verbatim>\<open>async\<close> function suspended at its \<^verbatim>\<open>await\<close>, with the variables its
  continuation uses: the \<^verbatim>\<open>qr\<close> listener waiting for the encoder (\<^verbatim>\<open>sessionId\<close>,
  \<^verbatim>\<open>session\<close>, \<^verbatim>\<open>qr\<close>), and the two send handlers waiting for
  \<^verbatim>\<open>sendMessage\<close>, with what that promise will settle to (the command form also
  keeps \<^verbatim>\<open>sessionId\<close> for its console line).
\<close>

datatype task =
    QrTask jsval sref string
  | PostSendTask jsval "string + unit"
  | GetSendTask "string + unit"

record world =
  sessions :: "jsval \<rightharpoonup> sref"
  heap :: "sref \<Rightarrow> session"
  next_sref :: sref
  clients :: "cref \<Rightarrow> client_obj"
  next_cref :: cref
  console :: "console_line list"
  unhandled :: "string list"
  suspended :: "task list"

definition init_world :: world where
  "init_world =
     \<lparr>sessions = Map.empty,
      heap = (\<lambda>_. \<lparr>client = 0, ready = False, qrDataUrl = None\<rparr>),
      next_sref = 0,
      clients = (\<lambda>_. \<lparr>clientId = Undefined, listeners = [], initialize_calls = 0,
                       sendMessage_calls = []\<rparr>),
      next_cref = 0,
      console = [],
      unhandled = [],
      suspended = []\<rparr>"

subsection \<open>Computations that may throw\<close>

text \<open>
  A statement sequence that can throw returns \<open>Inl err\<close> (the thrown error, by
  its message) or \<open>Inr x\<close>, together with the state it leaves behind.
\<close>

type_synonym 'a comp = "world \<Rightarrow> (string + 'a) \<times> world"

definition bind :: "'a comp \<Rightarrow> ('a \<Rightarrow> 'b comp) \<Rightarrow> 'b comp" where
  "bind m f w = (case m w of (Inl err, w') \<Rightarrow> (Inl err, w') | (Inr x, w') \<Rightarrow> f x w')"

definition try_catch :: "'a comp \<Rightarrow> (string \<Rightarrow> 'a comp) \<Rightarrow> 'a comp" where
  "try_catch body handler w =
     (case body w of (Inl err, w') \<Rightarrow> handler err w' | (Inr x, w') \<Rightarrow> (Inr x, w'))"

text \<open>\<^verbatim>\<open>await p\<close> for a promise that settles to \<open>r\<close>: a rejection is thrown.\<close>

definition await :: "string + 'a \<Rightarrow> 'a comp" where
  "await r w = (r, w)"

text \<open>
  An \<^verbatim>\<open>async\<close> function never throws into its caller: an error that leaves
  its body rejects the promise nobody awaits, recorded in \<open>unhandled\<close>. Until
  the promise it awaits settles, the function waits in \<open>suspended\<close>.
\<close>

definition settle :: "(string + 'a) \<times> world \<Rightarrow> world" where
  "settle r = (case r of (Inl err, w') \<Rightarrow> w'\<lparr>unhandled := unhandled w' @ [err]\<rparr>
                       | (Inr _, w') \<Rightarrow> w')"

definition suspend :: "task \<Rightarrow> world \<Rightarrow> world" where
  "suspend t w = w\<lparr>suspended := suspended w @ [t]\<rparr>"

subsection \<open>Primitive effects\<close>

definition console_log :: "string list \<Rightarrow> world \<Rightarrow> world" where
  "console_log args w = w\<lparr>console := console w @ [Log args]\<rparr>"

definition console_error :: "string list \<Rightarrow> world \<Rightarrow> world" where
  "console_error args w = w\<lparr>console := console w @ [Error args]\<rparr>"

definition set_ready :: "sref \<Rightarrow> bool \<Rightarrow> world \<Rightarrow> world" where
  "set_ready s b w = w\<lparr>heap := (heap w)(s := (heap w s)\<lparr>ready := b\<rparr>)\<rparr>"

definition set_qrDataUrl :: "sref \<Rightarrow> string option \<Rightarrow> world \<Rightarrow> world" where
  "set_qrDataUrl s u w = w\<lparr>heap := (heap w)(s := (heap w s)\<lparr>qrDataUrl := u\<rparr>)\<rparr>"

text \<open>
  \<^verbatim>\<open>new LocalAuth({ clientId })\<close>, the auth strategy of whatsapp-web.js: its
  constructor tests a given \<^verbatim>\<open>clientId\<close> against \<^verbatim>\<open>/^[-_\w]+$/i\<close> and throws
  when the test fails.
\<close>

definition idRegex_chars :: string where
  "idRegex_chars =
     ''abcdefghijklmnopqrstuvwxyz'' @ ''ABCDEFGHIJKLMNOPQRSTUVWXYZ'' @ ''0123456789'' @ ''_-''"

definition idRegex_test :: "string \<Rightarrow> bool" where
  "idRegex_test s \<longleftrightarrow> s \<noteq> [] \<and> list_all (\<lambda>c. c \<in> set idRegex_chars) s"

definition invalid_clientId :: string where
  "invalid_clientId =
     ''Invalid clientId. Only alphanumeric characters, underscores and hyphens are allowed.''"

definition new_LocalAuth :: "jsval \<Rightarrow> jsval comp" where
  "new_LocalAuth cid w =
     (if truthy cid \<and> \<not> idRegex_test (to_str cid)
      then (Inl invalid_clientId, w)
      else (Inr cid, w))"

text \<open>\<^verbatim>\<open>new Client({ authStrategy, puppeteer })\<close>, given the auth strategy's \<^verbatim>\<open>clientId\<close>.\<close>

definition new_Client :: "jsval \<Rightarrow> world \<Rightarrow> cref \<times> world" where
  "new_Client cid w =
     (next_cref w,
      w\<lparr>clients := (clients w)(next_cref w :=
           \<lparr>clientId = cid, listeners = [], initialize_calls = 0, sendMessage_calls = []\<rparr>),
        next_cref := Suc (next_cref w)\<rparr>)"

definition new_session :: "cref \<Rightarrow> world \<Rightarrow> sref \<times> world" where
  "new_session c w =
     (next_sref w,
      w\<lparr>heap := (heap w)(next_sref w := \<lparr>client = c, ready = False, qrDataUrl = None\<rparr>),
        next_sref := Suc (next_sref w)\<rparr>)"

definition sessions_set :: "jsval \<Rightarrow> sref \<Rightarrow> world \<Rightarrow> world" where
  "sessions_set k s w = w\<lparr>sessions := (sessions w)(k \<mapsto> s)\<rparr>"

definition on :: "cref \<Rightarrow> event_name \<Rightarrow> listener \<Rightarrow> world \<Rightarrow> world" where
  "on c n l w =
     w\<lparr>clients := (clients w)(c := (clients w c)\<lparr>listeners := listeners (clients w c) @ [(n, l)]\<rparr>)\<rparr>"

definition initialize :: "cref \<Rightarrow> world \<Rightarrow> world" where
  "initialize c w =
     w\<lparr>clients := (clients w)(c := (clients w c)
          \<lparr>initialize_calls := Suc (initialize_calls (clients w c))\<rparr>)\<rparr>"

text \<open>
  \<^verbatim>\<open>client.sendMessage(chatId, text)\<close>: the call is recorded on the adapter; what
  the returned promise settles to is the adapter's business and is a parameter.
\<close>

definition sendMessage :: "cref \<Rightarrow> string \<Rightarrow> jsval \<Rightarrow> string + unit \<Rightarrow> unit comp" where
  "sendMessage c chatId text outcome w =
     (outcome,
      w\<lparr>clients := (clients w)(c := (clients w c)
          \<lparr>sendMessage_calls := sendMessage_calls (clients w c) @ [(chatId, text)]\<rparr>)\<rparr>)"

section \<open>The session registry: initSession and its event listeners\<close>

text \<open>
  The \<^verbatim>\<open>qr\<close> listener. \<open>toDataURL\<close> is the QR encoder, an external collaborator:
  \<open>Inr\<close> the data URL, \<open>Inl\<close> the error its promise rejects with.
\<close>

definition on_qr :: "(string \<Rightarrow> string + string) \<Rightarrow> jsval \<Rightarrow> sref \<Rightarrow> string \<Rightarrow> unit comp" where
  "on_qr toDataURL sessionId session qr =
     try_catch
       (bind (await (toDataURL qr)) (\<lambda>dataUrl w.
          (Inr (),
           console_log [''Session '' @ to_str sessionId @ '': QR generated'']
             (set_qrDataUrl session (Some dataUrl) w))))
       (\<lambda>err w.
          (Inr (),
           console_error [''Session '' @ to_str sessionId @ '': QR generation error'', err] w))"

definition on_ready :: "jsval \<Rightarrow> sref \<Rightarrow> world \<Rightarrow> world" where
  "on_ready sessionId session w =
     console_log [''Session '' @ to_str sessionId @ '': client ready'']
       (set_ready session True w)"

definition on_auth_failure :: "jsval \<Rightarrow> sref \<Rightarrow> string \<Rightarrow> world \<Rightarrow> world" where
  "on_auth_failure sessionId session msg w =
     set_ready session False
       (console_error [''Session '' @ to_str sessionId @ '': auth failure'', msg] w)"

definition on_disconnected :: "jsval \<Rightarrow> sref \<Rightarrow> cref \<Rightarrow> string \<Rightarrow> world \<Rightarrow> world" where
  "on_disconnected sessionId session c reason w =
     initialize c
       (set_qrDataUrl session None
         (set_ready session False
           (console_log [''Session '' @ to_str sessionId @ '': disconnected'', reason] w)))"

text \<open>
  \<^verbatim>\<open>initSession\<close>. The argument of \<^verbatim>\<open>new Client\<close> is evaluated first, so an
  identifier the auth strategy refuses makes the function throw before anything
  is constructed or stored.
\<close>

definition initSession :: "jsval \<Rightarrow> sref comp" where
  "initSession sessionId w =
     (case sessions w sessionId of
        Some session \<Rightarrow> (Inr session, w)
      | None \<Rightarrow>
          bind (new_LocalAuth sessionId) (\<lambda>auth w0.
            (let (c, w1) = new_Client auth w0;
                 (session, w2) = new_session c w1;
                 w3 = sessions_set sessionId session w2;
                 w4 = on c QR (QrListener sessionId session) w3;
                 w5 = on c READY (ReadyListener sessionId session) w4;
                 w6 = on c AUTH_FAILURE (AuthFailureListener sessionId session) w5;
                 w7 = on c DISCONNECTED (DisconnectedListener sessionId session c) w6;
                 w8 = initialize c w7
             in (Inr session, w8))) w)"

text \<open>
  An event of the adapter: every listener registered under the event's name is
  called, in registration order, with the event's argument (the pairing token for
  \<^verbatim>\<open>qr\<close>, the message or reason for \<^verbatim>\<open>auth_failure\<close> and \<^verbatim>\<open>disconnected\<close>;
  \<^verbatim>\<open>ready\<close> carries none and its listener ignores it). The \<^verbatim>\<open>qr\<close> listener is
  \<^verbatim>\<open>async\<close>: called, it hands the token to the encoder and suspends at the
  \<^verbatim>\<open>await\<close>, having changed nothing; the other three run to their end.
\<close>

fun call :: "listener \<Rightarrow> string \<Rightarrow> world \<Rightarrow> world" where
  "call (QrListener sessionId session) arg w = suspend (QrTask sessionId session arg) w"
| "call (ReadyListener sessionId session) arg w = on_ready sessionId session w"
| "call (AuthFailureListener sessionId session) arg w = on_auth_failure sessionId session arg w"
| "call (DisconnectedListener sessionId session c) arg w =
     on_disconnected sessionId session c arg w"

fun emit_to :: "(event_name \<times> listener) list \<Rightarrow> event_name \<Rightarrow> string \<Rightarrow> world \<Rightarrow> world" where
  "emit_to [] n arg w = w"
| "emit_to ((m, l) # ls) n arg w = emit_to ls n arg (if m = n then call l arg w else w)"

definition emit :: "cref \<Rightarrow> event_name \<Rightarrow> string \<Rightarrow> world \<Rightarrow> world" where
  "emit c n arg w = emit_to (listeners (clients w c)) n arg w"

section \<open>The HTTP handlers\<close>

datatype json = JNull | JBool bool | JString string

text \<open>
  A response body: \<^verbatim>\<open>res.json\<close>, \<^verbatim>\<open>res.send\<close> of a text, or the page Express
  itself answers, with status 500, when a handler throws.
\<close>

datatype body = Json "(string \<times> json) list" | Text string | ErrorPage string

record response =
  status :: nat
  body :: body

text \<open>
  The three pictographs of the link form's texts, as the UTF-8 bytes the response
  carries: U+274C (cross mark), U+23F3 (hourglass), U+2705 (check mark).
\<close>

definition cross_mark :: string where
  "cross_mark = [CHR 0xE2, CHR 0x9D, CHR 0x8C]"

definition hourglass :: string where
  "hourglass = [CHR 0xE2, CHR 0x8F, CHR 0xB3]"

definition check_mark :: string where
  "check_mark = [CHR 0xE2, CHR 0x9C, CHR 0x85]"

definition json_of_qrDataUrl :: "string option \<Rightarrow> json" where
  "json_of_qrDataUrl u = (case u of None \<Rightarrow> JNull | Some d \<Rightarrow> JString d)"

text \<open>
  \<^verbatim>\<open>app.get('/register', ...)\<close>. The handler has no \<^verbatim>\<open>try\<close>: what
  \<^verbatim>\<open>initSession\<close> throws goes to Express.
\<close>

definition get_register :: "jsval \<Rightarrow> world \<Rightarrow> response \<times> world" where
  "get_register sessionId w =
     (if \<not> truthy sessionId
      then (\<lparr>status = 400, body = Json [(''error'', JString ''Missing sessionId'')]\<rparr>, w)
      else (case initSession sessionId w of
              (Inl err, w') \<Rightarrow> (\<lparr>status = 500, body = ErrorPage err\<rparr>, w')
            | (Inr session, w') \<Rightarrow>
                (\<lparr>status = 200,
                  body = Json [(''qrDataUrl'', json_of_qrDataUrl (qrDataUrl (heap w' session)))]\<rparr>,
                 w')))"

text \<open>\<^verbatim>\<open>app.get('/health', ...)\<close>\<close>

definition get_health :: "jsval \<Rightarrow> world \<Rightarrow> response \<times> world" where
  "get_health sessionId w =
     (if \<not> truthy sessionId
      then (\<lparr>status = 400, body = Json [(''error'', JString ''Missing sessionId'')]\<rparr>, w)
      else (case sessions w sessionId of
              None \<Rightarrow> (\<lparr>status = 200, body = Json [(''status'', JString ''initializing'')]\<rparr>, w)
            | Some session \<Rightarrow>
                (\<lparr>status = 200,
                  body = Json [(''status'',
                    JString (if ready (heap w session) then ''ready'' else ''initializing''))]\<rparr>,
                 w)))"

text \<open>
  \<^verbatim>\<open>app.post('/send', ...)\<close>. \<open>outcome\<close> is what the promise of
  \<^verbatim>\<open>sendMessage\<close> settles to, should the handler get that far.
\<close>

definition post_send :: "jsval \<Rightarrow> jsval \<Rightarrow> jsval \<Rightarrow> string + unit \<Rightarrow> response comp" where
  "post_send sessionId to text outcome w =
     (if \<not> truthy sessionId \<or> \<not> truthy to \<or> \<not> truthy text
      then (Inr \<lparr>status = 400,
                 body = Json [(''error'', JString ''Missing sessionId, to, or text'')]\<rparr>, w)
      else (case sessions w sessionId of
              None \<Rightarrow>
                (Inr \<lparr>status = 503, body = Json [(''error'', JString ''Session not ready'')]\<rparr>, w)
            | Some session \<Rightarrow>
                if \<not> ready (heap w session)
                then (Inr \<lparr>status = 503,
                           body = Json [(''error'', JString ''Session not ready'')]\<rparr>, w)
                else
                  try_catch
                    (bind (sendMessage (client (heap w session)) (to_str to @ ''@c.us'') text outcome)
                       (\<lambda>_ w'. (Inr \<lparr>status = 200, body = Json [(''success'', JBool True)]\<rparr>, w')))
                    (\<lambda>err w'.
                       (Inr \<lparr>status = 500, body = Json [(''error'', JString err)]\<rparr>,
                        console_error [''Session '' @ to_str sessionId @ '' send error:'', err] w'))
                    w))"

text \<open>\<^verbatim>\<open>app.get('/send', ...)\<close>\<close>

definition get_send :: "jsval \<Rightarrow> jsval \<Rightarrow> jsval \<Rightarrow> string + unit \<Rightarrow> response comp" where
  "get_send sessionId to text outcome w =
     (if \<not> truthy sessionId \<or> \<not> truthy to \<or> \<not> truthy text
      then (Inr \<lparr>status = 400,
                 body = Text (cross_mark @ '' Missing sessionId, to, or text'')\<rparr>, w)
      else (case sessions w sessionId of
              None \<Rightarrow>
                (Inr \<lparr>status = 503, body = Text (hourglass @ '' Session not ready'')\<rparr>, w)
            | Some session \<Rightarrow>
                if \<not> ready (heap w session)
                then (Inr \<lparr>status = 503, body = Text (hourglass @ '' Session not ready'')\<rparr>, w)
                else
                  try_catch
                    (bind (sendMessage (client (heap w session)) (to_str to @ ''@c.us'') text outcome)
                       (\<lambda>_ w'.
                          (Inr \<lparr>status = 200,
                                body = Text (check_mark @ '' Message sent successfully!'')\<rparr>, w')))
                    (\<lambda>err w'.
                       (Inr \<lparr>status = 500, body = Text (cross_mark @ '' Failed to send message'')\<rparr>,
                        console_error [''Send error:'', err] w'))
                    w))"

subsection \<open>The send handlers in two phases\<close>

text \<open>
  A send handler runs on arrival up to its \<^verbatim>\<open>await\<close>: it answers at once
  (\<open>Some\<close> response) or calls \<^verbatim>\<open>sendMessage\<close> and suspends (\<open>None\<close>). Its
  continuation runs when the promise settles. \<open>post_send\<close> and \<open>get_send\<close> above
  are the two phases run without anything in between.
\<close>

definition post_send_arrive ::
    "jsval \<Rightarrow> jsval \<Rightarrow> jsval \<Rightarrow> string + unit \<Rightarrow> world \<Rightarrow> response option \<times> world" where
  "post_send_arrive sessionId to text outcome w =
     (if \<not> truthy sessionId \<or> \<not> truthy to \<or> \<not> truthy text
      then (Some \<lparr>status = 400,
                  body = Json [(''error'', JString ''Missing sessionId, to, or text'')]\<rparr>, w)
      else (case sessions w sessionId of
              None \<Rightarrow>
                (Some \<lparr>status = 503, body = Json [(''error'', JString ''Session not ready'')]\<rparr>, w)
            | Some session \<Rightarrow>
                if \<not> ready (heap w session)
                then (Some \<lparr>status = 503,
                            body = Json [(''error'', JString ''Session not ready'')]\<rparr>, w)
                else (None,
                      snd (sendMessage (client (heap w session)) (to_str to @ ''@c.us'') text
                             outcome w))))"

definition post_send_settle :: "jsval \<Rightarrow> string + unit \<Rightarrow> response comp" where
  "post_send_settle sessionId outcome =
     try_catch
       (bind (await outcome)
          (\<lambda>_ w'. (Inr \<lparr>status = 200, body = Json [(''success'', JBool True)]\<rparr>, w')))
       (\<lambda>err w'.
          (Inr \<lparr>status = 500, body = Json [(''error'', JString err)]\<rparr>,
           console_error [''Session '' @ to_str sessionId @ '' send error:'', err] w'))"

definition get_send_arrive ::
    "jsval \<Rightarrow> jsval \<Rightarrow> jsval \<Rightarrow> string + unit \<Rightarrow> world \<Rightarrow> response option \<times> world" where
  "get_send_arrive sessionId to text outcome w =
     (if \<not> truthy sessionId \<or> \<not> truthy to \<or> \<not> truthy text
      then (Some \<lparr>status = 400,
                  body = Text (cross_mark @ '' Missing sessionId, to, or text'')\<rparr>, w)
      else (case sessions w sessionId of
              None \<Rightarrow>
                (Some \<lparr>status = 503, body = Text (hourglass @ '' Session not ready'')\<rparr>, w)
            | Some session \<Rightarrow>
                if \<not> ready (heap w session)
                then (Some \<lparr>status = 503, body = Text (hourglass @ '' Session not ready'')\<rparr>, w)
                else (None,
                      snd (sendMessage (client (heap w session)) (to_str to @ ''@c.us'') text
                             outcome w))))"

definition get_send_settle :: "string + unit \<Rightarrow> response comp" where
  "get_send_settle outcome =
     try_catch
       (bind (await outcome)
          (\<lambda>_ w'.
             (Inr \<lparr>status = 200, body = Text (check_mark @ '' Message sent successfully!'')\<rparr>,
              w')))
       (\<lambda>err w'.
          (Inr \<lparr>status = 500, body = Text (cross_mark @ '' Failed to send message'')\<rparr>,
           console_error [''Send error:'', err] w'))"

section \<open>Runs of the process\<close>

text \<open>
  What happens to the process, one thing at a time: a request arrives at one of
  the four handlers, an adapter emits an event, or the promise a suspended function
  awaits settles and the function runs on (\<open>Resume i\<close>, for the \<open>i\<close>-th
  suspended function: promises settle in any order). Between the arrival of a send
  request or a pairing token and the matching \<open>Resume\<close>, any other request, event
  or continuation may run.

  The \<^verbatim>\<open>qr\<close> listener changes nothing before its \<^verbatim>\<open>await\<close> and the encoder is a
  function of the token, so its body \<open>on_qr\<close> is run as a whole when it resumes.
\<close>

datatype action =
    GetRegister jsval
  | GetHealth jsval
  | PostSend jsval jsval jsval "string + unit"
  | GetSend jsval jsval jsval "string + unit"
  | Emit cref event_name string
  | Resume nat

fun resume :: "(string \<Rightarrow> string + string) \<Rightarrow> task \<Rightarrow> world \<Rightarrow> world" where
  "resume toDataURL (QrTask sessionId session qr) w =
     settle (on_qr toDataURL sessionId session qr w)"
| "resume toDataURL (PostSendTask sessionId outcome) w =
     settle (post_send_settle sessionId outcome w)"
| "resume toDataURL (GetSendTask outcome) w = settle (get_send_settle outcome w)"

fun step :: "(string \<Rightarrow> string + string) \<Rightarrow> action \<Rightarrow> world \<Rightarrow> world" where
  "step toDataURL (GetRegister sessionId) w = snd (get_register sessionId w)"
| "step toDataURL (GetHealth sessionId) w = snd (get_health sessionId w)"
| "step toDataURL (PostSend sessionId to text outcome) w =
     (case post_send_arrive sessionId to text outcome w of
        (Some _, w') \<Rightarrow> w'
      | (None, w') \<Rightarrow> suspend (PostSendTask sessionId outcome) w')"
| "step toDataURL (GetSend sessionId to text outcome) w =
     (case get_send_arrive sessionId to text outcome w of
        (Some _, w') \<Rightarrow> w'
      | (None, w') \<Rightarrow> suspend (GetSendTask outcome) w')"
| "step toDataURL (Emit c n arg) w = emit c n arg w"
| "step toDataURL (Resume i) w =
     (if i < length (suspended w)
      then resume toDataURL (suspended w ! i)
             (w\<lparr>suspended := take i (suspended w) @ drop (Suc i) (suspended w)\<rparr>)
      else w)"

fun run :: "(string \<Rightarrow> string + string) \<Rightarrow> action list \<Rightarrow> world \<Rightarrow> world" where
  "run toDataURL [] w = w"
| "run toDataURL (a # as) w = run toDataURL as (step toDataURL a w)"

section \<open>Vocabulary of the proofs\<close>

text \<open>The identifiers the auth strategy's constructor lets pass.\<close>

definition LocalAuth_accepts :: "jsval \<Rightarrow> bool" where
  "LocalAuth_accepts cid \<longleftrightarrow> \<not> truthy cid \<or> idRegex_test (to_str cid)"

text \<open>The four registrations of \<^verbatim>\<open>initSession\<close>, in source order.\<close>

definition handlers_of :: "jsval \<Rightarrow> sref \<Rightarrow> cref \<Rightarrow> (event_name \<times> listener) list" where
  "handlers_of sessionId session c =
     [(QR, QrListener sessionId session),
      (READY, ReadyListener sessionId session),
      (AUTH_FAILURE, AuthFailureListener sessionId session),
      (DISCONNECTED, DisconnectedListener sessionId session c)]"

fun registered_for :: "listener \<Rightarrow> event_name" where
  "registered_for (QrListener _ _) = QR"
| "registered_for (ReadyListener _ _) = READY"
| "registered_for (AuthFailureListener _ _) = AUTH_FAILURE"
| "registered_for (DisconnectedListener _ _ _) = DISCONNECTED"

text \<open>
  What no listener and no send handler changes: the registry, the two allocation
  counters, every session's adapter and every adapter's listeners.
\<close>

definition same_frame :: "world \<Rightarrow> world \<Rightarrow> bool" where
  "same_frame w w' \<longleftrightarrow>
     sessions w' = sessions w \<and> next_sref w' = next_sref w \<and> next_cref w' = next_cref w
     \<and> (\<forall>s. client (heap w' s) = client (heap w s))
     \<and> (\<forall>c. listeners (clients w' c) = listeners (clients w c)
            \<and> clientId (clients w' c) = clientId (clients w c))"

text \<open>
  The invariant of the process: a registered identifier is non-empty, its session
  object and adapter are allocated, the adapter carries exactly the four listeners
  of that session, and every listener is registered under its own event.
\<close>

definition wf :: "world \<Rightarrow> bool" where
  "wf w \<longleftrightarrow>
     (\<forall>k s. sessions w k = Some s \<longrightarrow>
        truthy k \<and> s < next_sref w \<and> client (heap w s) < next_cref w
        \<and> listeners (clients w (client (heap w s))) = handlers_of k s (client (heap w s)))
     \<and> (\<forall>c n l. (n, l) \<in> set (listeners (clients w c)) \<longrightarrow> registered_for l = n)"

text \<open>
  The steps that write \<^verbatim>\<open>qrDataUrl\<close> of a session: a \<^verbatim>\<open>disconnected\<close> event and
  the continuation of a \<^verbatim>\<open>qr\<close> listener. A run is \<open>quiet\<close> when it has neither.
\<close>

fun is_QrTask :: "task \<Rightarrow> bool" where
  "is_QrTask (QrTask _ _ _) = True"
| "is_QrTask _ = False"



text \<open>The arrival of an HTTP request.\<close>

fun is_request :: "action \<Rightarrow> bool" where
  "is_request (Emit c n arg) = False"
| "is_request (Resume i) = False"
| "is_request _ = True"

text \<open>
  A stand-in for the QR encoder and three worlds for the worked examples: session
  \<^verbatim>\<open>s1\<close> registered and its first pairing token issued; the token encoded and
  stored; the session paired.
\<close>

definition stub_toDataURL :: "string \<Rightarrow> string + string" where
  "stub_toDataURL qr = (if qr = [] then Inl ''No input text'' else Inr (''data:image/png;base64,'' @ qr))"

definition world_s1_issued :: world where
  "world_s1_issued =
     run stub_toDataURL [GetRegister (Str ''s1''), Emit 0 QR ''TOKEN1''] init_world"

definition world_s1 :: world where
  "world_s1 = step stub_toDataURL (Resume 0) world_s1_issued"

definition world_s1_ready :: world where
  "world_s1_ready = step stub_toDataURL (Emit 0 READY []) world_s1"

section \<open>Basic facts\<close>

lemmas effect_defs = console_log_def console_error_def set_ready_def set_qrDataUrl_def
  new_Client_def new_session_def sessions_set_def on_def initialize_def sendMessage_def
  bind_def try_catch_def await_def settle_def suspend_def

lemmas run_defs = init_world_def get_register_def get_health_def initSession_def emit_def
  on_qr_def on_ready_def on_auth_failure_def on_disconnected_def stub_toDataURL_def
  new_LocalAuth_def idRegex_test_def idRegex_chars_def effect_defs

lemma world_s1_issued_sessions: "sessions world_s1_issued (Str ''s1'') = Some 0"
  by (simp add: world_s1_issued_def run_defs)

lemma world_s1_issued_heap:
  "heap world_s1_issued 0 = \<lparr>client = 0, ready = False, qrDataUrl = None\<rparr>"
  by (simp add: world_s1_issued_def run_defs)

lemma world_s1_issued_suspended:
  "suspended world_s1_issued = [QrTask (Str ''s1'') 0 ''TOKEN1'']"
  by (simp add: world_s1_issued_def run_defs)

lemma world_s1_sessions: "sessions world_s1 (Str ''s1'') = Some 0"
  by (simp add: world_s1_def world_s1_issued_suspended world_s1_issued_sessions run_defs)

lemma world_s1_heap:
  "heap world_s1 0 = \<lparr>client = 0, ready = False, qrDataUrl = Some ''data:image/png;base64,TOKEN1''\<rparr>"
  by (simp add: world_s1_def world_s1_issued_suspended world_s1_issued_heap run_defs)

lemma world_s1_listeners:
  "listeners (clients world_s1 0) = handlers_of (Str ''s1'') 0 0"
  by (simp add: world_s1_def world_s1_issued_suspended run_defs)
    (simp add: world_s1_issued_def run_defs handlers_of_def)

lemma world_s1_counters: "next_sref world_s1 = 1 \<and> next_cref world_s1 = 1"
  by (simp add: world_s1_def world_s1_issued_suspended run_defs)
    (simp add: world_s1_issued_def run_defs)

lemma world_s1_ready_sessions: "sessions world_s1_ready (Str ''s1'') = Some 0"
  by (simp add: world_s1_ready_def emit_def world_s1_listeners handlers_of_def on_ready_def
      effect_defs world_s1_sessions)

lemma world_s1_ready_heap:
  "heap world_s1_ready 0 = \<lparr>client = 0, ready = True, qrDataUrl = Some ''data:image/png;base64,TOKEN1''\<rparr>"
  by (simp add: world_s1_ready_def emit_def world_s1_listeners handlers_of_def on_ready_def
      effect_defs world_s1_heap)

lemma world_s1_ready_clients: "clients world_s1_ready = clients world_s1"
  by (simp add: world_s1_ready_def emit_def world_s1_listeners handlers_of_def on_ready_def
      effect_defs)

lemma world_s1_clients_0:
  "initialize_calls (clients world_s1 0) = 1 \<and> sendMessage_calls (clients world_s1 0) = []
   \<and> clientId (clients world_s1 0) = Str ''s1''"
  by (simp add: world_s1_def world_s1_issued_suspended run_defs)
    (simp add: world_s1_issued_def run_defs)

lemma world_s1_ready_calls: "sendMessage_calls (clients world_s1_ready 0) = []"
  by (simp add: world_s1_ready_clients world_s1_clients_0)

lemma world_s1_issued_registry: "sessions world_s1_issued = [Str ''s1'' \<mapsto> 0]"
  by (simp add: world_s1_issued_def run_defs)

lemma world_s1_registry: "sessions world_s1 = [Str ''s1'' \<mapsto> 0]"
  by (simp add: world_s1_def world_s1_issued_suspended world_s1_issued_registry run_defs)

lemma world_s1_ready_registry: "sessions world_s1_ready = [Str ''s1'' \<mapsto> 0]"
  by (simp add: world_s1_ready_def emit_def world_s1_listeners handlers_of_def on_ready_def
      effect_defs world_s1_registry)

lemma world_s1_suspended: "suspended world_s1 = []"
  by (simp add: world_s1_def world_s1_issued_suspended run_defs)

lemma world_s1_ready_suspended: "suspended world_s1_ready = []"
  by (simp add: world_s1_ready_def emit_def world_s1_listeners handlers_of_def on_ready_def
      effect_defs world_s1_suspended)

lemma world_s1_ready_counters: "next_sref world_s1_ready = 1 \<and> next_cref world_s1_ready = 1"
  by (simp add: world_s1_ready_def emit_def world_s1_listeners handlers_of_def on_ready_def
      effect_defs world_s1_counters)


lemma same_frame_refl: "same_frame w w"
  by (simp add: same_frame_def)

lemma same_frame_trans: "same_frame w w1 \<Longrightarrow> same_frame w1 w2 \<Longrightarrow> same_frame w w2"
  by (simp add: same_frame_def)

lemma call_frame: "same_frame w (call l arg w)"
  by (cases l)
    (simp_all add: same_frame_def on_ready_def on_auth_failure_def on_disconnected_def effect_defs)

lemma emit_to_frame: "same_frame w (emit_to ls n arg w)"
proof (induction ls arbitrary: w)
  case Nil
  show ?case by (simp add: same_frame_refl)
next
  case (Cons p ls)
  obtain m l where p: "p = (m, l)" by (cases p)
  have "same_frame w (if m = n then call l arg w else w)"
    by (simp add: call_frame same_frame_refl)
  with Cons.IH show ?case
    unfolding p emit_to.simps by (rule same_frame_trans [rotated])
qed

lemma emit_frame: "same_frame w (emit c n arg w)"
  by (simp add: emit_def emit_to_frame)

lemma resume_frame: "same_frame w (resume toDataURL t w)"
proof (cases t)
  case (QrTask k s qr)
  then show ?thesis
    by (cases "toDataURL qr") (simp_all add: same_frame_def on_qr_def effect_defs)
next
  case (PostSendTask k outcome)
  then show ?thesis
    by (cases outcome) (simp_all add: same_frame_def post_send_settle_def effect_defs)
next
  case (GetSendTask outcome)
  then show ?thesis
    by (cases outcome) (simp_all add: same_frame_def get_send_settle_def effect_defs)
qed

lemma post_send_arrive_frame:
  "same_frame w (snd (post_send_arrive sessionId to text outcome w))"
  by (auto simp: same_frame_def post_send_arrive_def effect_defs split: option.splits)

lemma get_send_arrive_frame:
  "same_frame w (snd (get_send_arrive sessionId to text outcome w))"
  by (auto simp: same_frame_def get_send_arrive_def effect_defs split: option.splits)

lemma suspend_frame: "same_frame w (suspend t w)"
  by (simp add: same_frame_def suspend_def)

lemma get_health_same: "snd (get_health sessionId w) = w"
  by (simp add: get_health_def split: option.splits)

lemma step_frame: "\<not> (\<exists>k. a = GetRegister k) \<Longrightarrow> same_frame w (step toDataURL a w)"
proof (cases a)
  case (PostSend k t x outcome)
  show ?thesis
    using post_send_arrive_frame [of w k t x outcome]
    by (auto simp: PostSend split: prod.splits option.splits
        intro: same_frame_trans [OF _ suspend_frame])
next
  case (GetSend k t x outcome)
  show ?thesis
    using get_send_arrive_frame [of w k t x outcome]
    by (auto simp: GetSend split: prod.splits option.splits
        intro: same_frame_trans [OF _ suspend_frame])
next
  case (Resume i)
  have "same_frame w (w\<lparr>suspended := take i (suspended w) @ drop (Suc i) (suspended w)\<rparr>)"
    by (simp add: same_frame_def)
  then show ?thesis
    by (auto simp: Resume same_frame_refl intro: same_frame_trans [OF _ resume_frame])
qed (simp_all add: get_health_same same_frame_refl emit_frame)

lemma wf_init: "wf init_world"
  by (simp add: wf_def init_world_def)

lemma wf_frame: "wf w \<Longrightarrow> same_frame w w' \<Longrightarrow> wf w'"
  by (simp add: wf_def same_frame_def)

lemma initSession_known: "sessions w k = Some s \<Longrightarrow> initSession k w = (Inr s, w)"
  by (simp add: initSession_def)

lemma initSession_refused:
  "sessions w k = None \<Longrightarrow> \<not> LocalAuth_accepts k \<Longrightarrow> initSession k w = (Inl invalid_clientId, w)"
  by (simp add: initSession_def LocalAuth_accepts_def new_LocalAuth_def bind_def)

lemma initSession_fresh:
  "sessions w k = None \<Longrightarrow> LocalAuth_accepts k \<Longrightarrow>
   initSession k w =
     (Inr (next_sref w),
      w\<lparr>sessions := (sessions w)(k \<mapsto> next_sref w),
        heap := (heap w)(next_sref w := \<lparr>client = next_cref w, ready = False, qrDataUrl = None\<rparr>),
        next_sref := Suc (next_sref w),
        clients := (clients w)(next_cref w :=
          \<lparr>clientId = k, listeners = handlers_of k (next_sref w) (next_cref w),
           initialize_calls = Suc 0, sendMessage_calls = []\<rparr>),
        next_cref := Suc (next_cref w)\<rparr>)"
  by (auto simp: initSession_def LocalAuth_accepts_def new_LocalAuth_def effect_defs handlers_of_def)

lemma wf_initSession:
  assumes "wf w" "truthy k"
  shows "wf (snd (initSession k w))"
proof (cases "sessions w k")
  case None
  show ?thesis
  proof (cases "LocalAuth_accepts k")
    case False
    then show ?thesis using assms(1) by (simp add: initSession_refused [OF None])
  next
    case True
    note fresh = initSession_fresh [OF None True]
    have old: "truthy k' \<and> s' < next_sref w \<and> client (heap w s') < next_cref w
        \<and> listeners (clients w (client (heap w s'))) = handlers_of k' s' (client (heap w s'))"
      if "sessions w k' = Some s'" for k' s'
      using assms(1) that by (simp add: wf_def)
    have reg: "registered_for l = n" if "(n, l) \<in> set (listeners (clients w c))" for c n l
      using assms(1) that by (auto simp: wf_def)
    let ?w' = "snd (initSession k w)"
    have A: "truthy k' \<and> s' < next_sref ?w' \<and> client (heap ?w' s') < next_cref ?w'
        \<and> listeners (clients ?w' (client (heap ?w' s'))) = handlers_of k' s' (client (heap ?w' s'))"
      if h: "sessions ?w' k' = Some s'" for k' s'
    proof (cases "k' = k")
      case True
      with h show ?thesis using assms(2) by (simp add: fresh)
    next
      case False
      with h have "sessions w k' = Some s'" by (simp add: fresh)
      from old [OF this] show ?thesis by (simp add: fresh)
    qed
    have B: "registered_for l = n" if "(n, l) \<in> set (listeners (clients ?w' c))" for c n l
      using that reg [of n l c]
      by (auto simp: fresh handlers_of_def split: if_splits)
    show ?thesis unfolding wf_def using A B by blast
  qed
next
  case (Some s)
  then show ?thesis using assms by (simp add: initSession_known)
qed

lemma get_register_snd:
  "snd (get_register k w) = (if truthy k then snd (initSession k w) else w)"
  by (simp add: get_register_def split: prod.splits sum.splits)

lemma wf_get_register: "wf w \<Longrightarrow> wf (snd (get_register sessionId w))"
  by (simp add: get_register_snd wf_initSession)

lemma wf_step: "wf w \<Longrightarrow> wf (step toDataURL a w)"
proof (cases "\<exists>k. a = GetRegister k")
  case True
  then show "wf w \<Longrightarrow> ?thesis" by (auto simp: wf_get_register)
next
  case False
  from step_frame [OF this] show "wf w \<Longrightarrow> ?thesis" by (rule wf_frame [rotated])
qed

lemma wf_run: "wf w \<Longrightarrow> wf (run toDataURL acts w)"
  by (induction acts arbitrary: w) (simp_all add: wf_step)

lemma wf_reachable: "wf (run toDataURL acts init_world)"
  by (simp add: wf_run wf_init)

subsection \<open>What a step keeps\<close>

lemma initSession_sessions:
  "sessions w k = Some s \<Longrightarrow> sessions (snd (initSession k' w)) k = Some s"
  by (cases "sessions w k'"; cases "LocalAuth_accepts k'")
    (auto simp: initSession_fresh initSession_known initSession_refused)

lemma step_sessions:
  "sessions w k = Some s \<Longrightarrow> sessions (step toDataURL a w) k = Some s"
proof (cases "\<exists>k'. a = GetRegister k'")
  case True
  then show "sessions w k = Some s \<Longrightarrow> ?thesis"
    by (auto simp: get_register_snd initSession_sessions)
next
  case False
  from step_frame [OF this] show "sessions w k = Some s \<Longrightarrow> ?thesis"
    by (simp add: same_frame_def)
qed

lemma run_sessions:
  "sessions w k = Some s \<Longrightarrow> sessions (run toDataURL acts w) k = Some s"
  by (induction acts arbitrary: w) (simp_all add: step_sessions)




lemma initSession_heap_old: "s < next_sref w \<Longrightarrow> heap (snd (initSession k w)) s = heap w s"
  by (cases "sessions w k"; cases "LocalAuth_accepts k")
    (auto simp: initSession_fresh initSession_known initSession_refused)

lemma initSession_next_sref: "next_sref w \<le> next_sref (snd (initSession k w))"
  by (cases "sessions w k"; cases "LocalAuth_accepts k")
    (auto simp: initSession_fresh initSession_known initSession_refused)

lemma get_register_heap_old: "s < next_sref w \<Longrightarrow> heap (snd (get_register k w)) s = heap w s"
  by (simp add: get_register_snd initSession_heap_old)

lemma get_register_next_sref: "next_sref w \<le> next_sref (snd (get_register k w))"
  by (simp add: get_register_snd initSession_next_sref)

lemma step_next_sref: "next_sref w \<le> next_sref (step toDataURL a w)"
proof (cases "\<exists>k'. a = GetRegister k'")
  case True
  then show ?thesis by (auto simp: get_register_next_sref)
next
  case False
  from step_frame [OF this] show ?thesis by (simp add: same_frame_def)
qed

lemma step_client:
  "s < next_sref w \<Longrightarrow> client (heap (step toDataURL a w) s) = client (heap w s)"
proof (cases "\<exists>k'. a = GetRegister k'")
  case True
  then show "s < next_sref w \<Longrightarrow> ?thesis" by (auto simp: get_register_heap_old)
next
  case False
  from step_frame [OF this] show ?thesis by (simp add: same_frame_def)
qed

lemma run_client:
  "s < next_sref w \<Longrightarrow> client (heap (run toDataURL acts w) s) = client (heap w s)"
proof (induction acts arbitrary: w)
  case Nil
  show ?case by simp
next
  case (Cons a acts)
  have "s < next_sref (step toDataURL a w)"
    using Cons.prems step_next_sref [of w toDataURL a] by simp
  from Cons.IH [OF this] show ?case by (simp add: step_client [OF Cons.prems])
qed

lemma post_send_arrive_heap: "heap (snd (post_send_arrive sessionId to text outcome w)) = heap w"
  by (auto simp: post_send_arrive_def effect_defs split: option.splits)

lemma get_send_arrive_heap: "heap (snd (get_send_arrive sessionId to text outcome w)) = heap w"
  by (auto simp: get_send_arrive_def effect_defs split: option.splits)

lemma request_heap_old:
  "is_request a \<Longrightarrow> s < next_sref w \<Longrightarrow> heap (step toDataURL a w) s = heap w s"
proof (cases a)
  case (PostSend k t x outcome)
  show ?thesis
    using post_send_arrive_heap [of k t x outcome w]
    by (auto simp: PostSend suspend_def split: prod.splits option.splits)
next
  case (GetSend k t x outcome)
  show ?thesis
    using get_send_arrive_heap [of k t x outcome w]
    by (auto simp: GetSend suspend_def split: prod.splits option.splits)
qed (simp_all add: get_register_heap_old get_health_same)




lemma resume_heap: "\<not> is_QrTask t \<Longrightarrow> heap (resume toDataURL t w) = heap w"
proof (cases t)
  case (PostSendTask k outcome)
  then show ?thesis by (cases outcome) (simp_all add: post_send_settle_def effect_defs)
next
  case (GetSendTask outcome)
  then show ?thesis by (cases outcome) (simp_all add: get_send_settle_def effect_defs)
qed simp



lemma get_register_known:
  "truthy k \<Longrightarrow> sessions w k = Some s \<Longrightarrow>
   get_register k w =
     (\<lparr>status = 200, body = Json [(''qrDataUrl'', json_of_qrDataUrl (qrDataUrl (heap w s)))]\<rparr>, w)"
  by (simp add: get_register_def initSession_known)


lemma LocalAuth_refuses_truthy: "\<not> LocalAuth_accepts k \<Longrightarrow> truthy k"
  by (auto simp: LocalAuth_accepts_def)

lemma get_register_refused:
  "sessions w k = None \<Longrightarrow> \<not> LocalAuth_accepts k \<Longrightarrow>
   get_register k w = (\<lparr>status = 500, body = ErrorPage invalid_clientId\<rparr>, w)"
  by (simp add: get_register_def initSession_refused LocalAuth_refuses_truthy)

lemma get_register_fresh:
  "truthy k \<Longrightarrow> sessions w k = None \<Longrightarrow> LocalAuth_accepts k \<Longrightarrow>
   fst (get_register k w) = \<lparr>status = 200, body = Json [(''qrDataUrl'', JNull)]\<rparr>
   \<and> sessions (snd (get_register k w)) k = Some (next_sref w)
   \<and> qrDataUrl (heap (snd (get_register k w)) (next_sref w)) = None"
  by (simp add: get_register_def initSession_fresh json_of_qrDataUrl_def)


lemma reachable_fresh:
  assumes "wf w" "sessions w k = Some s"
  shows "s < next_sref w \<and> client (heap w s) < next_cref w
     \<and> listeners (clients w (client (heap w s))) = handlers_of k s (client (heap w s))
     \<and> truthy k"
  using assms by (simp add: wf_def)

lemma emit_handlers_disconnected:
  "listeners (clients w c) = handlers_of k s c \<Longrightarrow>
   emit c DISCONNECTED reason w = on_disconnected k s c reason w"
  by (simp add: emit_def handlers_of_def)

lemma registered_truthy: "wf w \<Longrightarrow> \<not> truthy k \<Longrightarrow> sessions w k = None"
  by (cases "sessions w k") (auto simp: wf_def)

subsection \<open>The two phases of a send handler\<close>

lemma post_send_phases:
  "post_send sessionId to text outcome w =
     (case post_send_arrive sessionId to text outcome w of
        (Some r, w') \<Rightarrow> (Inr r, w')
      | (None, w') \<Rightarrow> post_send_settle sessionId outcome w')"
  by (cases outcome)
    (auto simp: post_send_def post_send_arrive_def post_send_settle_def effect_defs
       split: option.splits)

lemma get_send_phases:
  "get_send sessionId to text outcome w =
     (case get_send_arrive sessionId to text outcome w of
        (Some r, w') \<Rightarrow> (Inr r, w')
      | (None, w') \<Rightarrow> get_send_settle outcome w')"
  by (cases outcome)
    (auto simp: get_send_def get_send_arrive_def get_send_settle_def effect_defs
       split: option.splits)

text \<open>The continuation's answer does not depend on what ran during the wait.\<close>

lemma send_settle_answer:
  "fst (post_send_settle sessionId outcome w) = fst (post_send_settle sessionId outcome w')
   \<and> fst (get_send_settle outcome w) = fst (get_send_settle outcome w')"
  by (cases outcome) (simp_all add: post_send_settle_def get_send_settle_def effect_defs)


section \<open>Creation on demand\<close>

text \<open>
  C5: For every identifier not yet in the registry that the auth strategy accepts
  (letters, digits, underscore and hyphen only), \<^verbatim>\<open>initSession\<close> constructs a new
  adapter scoped to that identifier, registers the four listeners, stores a new
  session object with \<^verbatim>\<open>ready = false\<close> and \<^verbatim>\<open>qrDataUrl = null\<close>, calls
  \<^verbatim>\<open>initialize\<close> once and returns the new session; hence the first Register
  answer for such an identifier carries a null pairing image. In a reachable state
  the new session object and the new adapter belong to no earlier session. For any
  other identifier the constructor throws before anything is constructed or stored:
  the state stays as it was, and Register answers 500.
\<close>

theorem initSession_creates:
  assumes "sessions w sessionId = None"
  shows "(LocalAuth_accepts sessionId \<longrightarrow>
       initSession sessionId w = (Inr (next_sref w), snd (initSession sessionId w))
     \<and> sessions (snd (initSession sessionId w)) = (sessions w)(sessionId \<mapsto> next_sref w)
     \<and> heap (snd (initSession sessionId w)) (next_sref w) =
         \<lparr>client = next_cref w, ready = False, qrDataUrl = None\<rparr>
     \<and> clients (snd (initSession sessionId w)) (next_cref w) =
         \<lparr>clientId = sessionId,
          listeners =
            [(QR, QrListener sessionId (next_sref w)),
             (READY, ReadyListener sessionId (next_sref w)),
             (AUTH_FAILURE, AuthFailureListener sessionId (next_sref w)),
             (DISCONNECTED, DisconnectedListener sessionId (next_sref w) (next_cref w))],
          initialize_calls = 1, sendMessage_calls = []\<rparr>
     \<and> next_sref (snd (initSession sessionId w)) = Suc (next_sref w)
     \<and> next_cref (snd (initSession sessionId w)) = Suc (next_cref w)
     \<and> (truthy sessionId \<longrightarrow>
          fst (get_register sessionId w) =
            \<lparr>status = 200, body = Json [(''qrDataUrl'', JNull)]\<rparr>)
     \<and> (\<forall>pre k s. w = run toDataURL pre init_world \<and> sessions w k = Some s \<longrightarrow>
          s \<noteq> next_sref w \<and> client (heap w s) \<noteq> next_cref w))
   \<and> (\<not> LocalAuth_accepts sessionId \<longrightarrow>
       initSession sessionId w = (Inl invalid_clientId, w)
     \<and> get_register sessionId w = (\<lparr>status = 500, body = ErrorPage invalid_clientId\<rparr>, w))"
proof -
  have "s \<noteq> next_sref w \<and> client (heap w s) \<noteq> next_cref w"
    if "w = run toDataURL pre init_world" "sessions w k = Some s" for pre k s
    using reachable_fresh [of w k s] that wf_reachable [of toDataURL pre] by auto
  then have new: "\<forall>pre k s. w = run toDataURL pre init_world \<and> sessions w k = Some s \<longrightarrow>
      s \<noteq> next_sref w \<and> client (heap w s) \<noteq> next_cref w"
    by blast
  have A: "initSession sessionId w = (Inr (next_sref w), snd (initSession sessionId w))
     \<and> sessions (snd (initSession sessionId w)) = (sessions w)(sessionId \<mapsto> next_sref w)
     \<and> heap (snd (initSession sessionId w)) (next_sref w) =
         \<lparr>client = next_cref w, ready = False, qrDataUrl = None\<rparr>
     \<and> clients (snd (initSession sessionId w)) (next_cref w) =
         \<lparr>clientId = sessionId,
          listeners =
            [(QR, QrListener sessionId (next_sref w)),
             (READY, ReadyListener sessionId (next_sref w)),
             (AUTH_FAILURE, AuthFailureListener sessionId (next_sref w)),
             (DISCONNECTED, DisconnectedListener sessionId (next_sref w) (next_cref w))],
          initialize_calls = 1, sendMessage_calls = []\<rparr>
     \<and> next_sref (snd (initSession sessionId w)) = Suc (next_sref w)
     \<and> next_cref (snd (initSession sessionId w)) = Suc (next_cref w)"
    if "LocalAuth_accepts sessionId"
    by (simp add: initSession_fresh [OF assms that] handlers_of_def)
  have B: "fst (get_register sessionId w) =
            \<lparr>status = 200, body = Json [(''qrDataUrl'', JNull)]\<rparr>"
    if "LocalAuth_accepts sessionId" "truthy sessionId"
    using get_register_fresh [OF that(2) assms that(1)] by simp
  have C: "initSession sessionId w = (Inl invalid_clientId, w)
     \<and> get_register sessionId w = (\<lparr>status = 500, body = ErrorPage invalid_clientId\<rparr>, w)"
    if "\<not> LocalAuth_accepts sessionId"
    by (simp add: initSession_refused [OF assms that] get_register_refused [OF assms that])
  show ?thesis using A B C new by blast
qed

theorem initSession_creates_witness:
  "sessions world_s1 (Str ''s2'') = None \<and> LocalAuth_accepts (Str ''s2'')
   \<and> next_sref world_s1 = 1 \<and> next_cref world_s1 = 1
   \<and> fst (initSession (Str ''s2'') world_s1) = Inr 1
   \<and> sessions (snd (initSession (Str ''s2'') world_s1)) (Str ''s2'') = Some 1
   \<and> sessions (snd (initSession (Str ''s2'') world_s1)) (Str ''s1'') = Some 0
   \<and> heap (snd (initSession (Str ''s2'') world_s1)) 1 =
        \<lparr>client = 1, ready = False, qrDataUrl = None\<rparr>
   \<and> initialize_calls (clients (snd (initSession (Str ''s2'') world_s1)) 1) = 1
   \<and> clientId (clients (snd (initSession (Str ''s2'') world_s1)) 1) = Str ''s2''
   \<and> fst (get_register (Str ''s2'') world_s1) =
        \<lparr>status = 200, body = Json [(''qrDataUrl'', JNull)]\<rparr>
   \<and> client (heap world_s1 0) \<noteq> next_cref world_s1
   \<and> sessions world_s1 (Str ''s 2'') = None \<and> \<not> LocalAuth_accepts (Str ''s 2'')
   \<and> get_register (Str ''s 2'') world_s1 =
        (\<lparr>status = 500, body = ErrorPage invalid_clientId\<rparr>, world_s1)"
proof -
  have n: "sessions world_s1 (Str ''s2'') = None" and n': "sessions world_s1 (Str ''s 2'') = None"
    by (simp_all add: world_s1_registry)
  have a: "LocalAuth_accepts (Str ''s2'')" and a': "\<not> LocalAuth_accepts (Str ''s 2'')"
    by (simp_all add: LocalAuth_accepts_def idRegex_test_def idRegex_chars_def)
  have r: "world_s1 = run stub_toDataURL
      [GetRegister (Str ''s1''), Emit 0 QR ''TOKEN1'', Resume 0] init_world"
    by (simp add: world_s1_def world_s1_issued_def)
  note T = initSession_creates [OF n, of stub_toDataURL]
  note T' = initSession_creates [OF n', of stub_toDataURL]
  have f: "client (heap world_s1 0) \<noteq> next_cref world_s1"
    using T a r world_s1_sessions by blast
  have g: "get_register (Str ''s 2'') world_s1 =
        (\<lparr>status = 500, body = ErrorPage invalid_clientId\<rparr>, world_s1)"
    using T' a' by blast
  have h: "initSession (Str ''s2'') world_s1 = (Inr (next_sref world_s1), snd (initSession (Str ''s2'') world_s1))
     \<and> sessions (snd (initSession (Str ''s2'') world_s1)) = (sessions world_s1)(Str ''s2'' \<mapsto> next_sref world_s1)
     \<and> heap (snd (initSession (Str ''s2'') world_s1)) (next_sref world_s1) =
         \<lparr>client = next_cref world_s1, ready = False, qrDataUrl = None\<rparr>
     \<and> initialize_calls (clients (snd (initSession (Str ''s2'') world_s1)) (next_cref world_s1)) = 1
     \<and> clientId (clients (snd (initSession (Str ''s2'') world_s1)) (next_cref world_s1)) = Str ''s2''
     \<and> fst (get_register (Str ''s2'') world_s1) =
            \<lparr>status = 200, body = Json [(''qrDataUrl'', JNull)]\<rparr>"
    using T a by simp
  have i: "fst (initSession (Str ''s2'') world_s1) = Inr 1"
    using h world_s1_counters by (metis fst_conv)
  show ?thesis using h i f g n n' a a' world_s1_counters world_s1_sessions by simp
qed

text \<open>
  Without the condition on the identifier the statement fails: for the unseen
  identifier \<^verbatim>\<open>s 1\<close> nothing is stored and Register answers no pairing image.
\<close>

theorem initSession_refuses_counterexample:
  "sessions init_world (Str ''s 1'') = None \<and> truthy (Str ''s 1'')
   \<and> initSession (Str ''s 1'') init_world = (Inl invalid_clientId, init_world)
   \<and> get_register (Str ''s 1'') init_world =
       (\<lparr>status = 500, body = ErrorPage invalid_clientId\<rparr>, init_world)
   \<and> sessions (snd (get_register (Str ''s 1'') init_world)) (Str ''s 1'') = None"
  by (simp add: init_world_def get_register_def initSession_def new_LocalAuth_def bind_def
      idRegex_test_def idRegex_chars_def)

section \<open>Validation and readiness of Send\<close>

text \<open>
  C2: For every Send request (POST or GET form) in which any one of sessionId, to,
  or text is missing, the handler returns a 400 validation rejection and performs no
  registry interaction and no adapter send invocation: the answer is the same in
  every state, and the state is returned as it was.
\<close>

theorem send_missing_field_rejected:
  assumes "sessionId = Undefined \<or> to = Undefined \<or> text = Undefined"
  shows "post_send sessionId to text outcome w =
           (Inr \<lparr>status = 400, body = Json [(''error'', JString ''Missing sessionId, to, or text'')]\<rparr>, w)
       \<and> get_send sessionId to text outcome w =
           (Inr \<lparr>status = 400, body = Text (cross_mark @ '' Missing sessionId, to, or text'')\<rparr>, w)"
  using assms by (auto simp: post_send_def get_send_def)

theorem send_missing_field_rejected_witness:
  "post_send (Str ''s1'') Undefined (Str ''hi'') (Inr ()) world_s1_ready =
           (Inr \<lparr>status = 400, body = Json [(''error'', JString ''Missing sessionId, to, or text'')]\<rparr>, world_s1_ready)
       \<and> get_send (Str ''s1'') Undefined (Str ''hi'') (Inr ()) world_s1_ready =
           (Inr \<lparr>status = 400, body = Text (cross_mark @ '' Missing sessionId, to, or text'')\<rparr>, world_s1_ready)
       \<and> sessions world_s1_ready (Str ''s1'') = Some 0 \<and> ready (heap world_s1_ready 0)"
  using send_missing_field_rejected [of "Str ''s1''" Undefined "Str ''hi''" "Inr ()" world_s1_ready]
  by (simp add: world_s1_ready_sessions world_s1_ready_heap)

text \<open>
  C3: For every Send request with all three fields present (each passes the
  handler's own test), if the session is absent from the registry or its ready flag
  is false, the handler returns the 503 rejection "Session not ready", which differs
  from the validation rejection and from every adapter-failure rejection, and the
  state is returned as it was, so the adapter's send is not invoked.
\<close>

theorem send_not_ready_rejected:
  assumes fields: "truthy sessionId" "truthy to" "truthy text"
    and unready: "sessions w sessionId = None \<or>
                  (\<exists>session. sessions w sessionId = Some session \<and> \<not> ready (heap w session))"
  shows "post_send sessionId to text outcome w =
           (Inr \<lparr>status = 503, body = Json [(''error'', JString ''Session not ready'')]\<rparr>, w)
       \<and> get_send sessionId to text outcome w =
           (Inr \<lparr>status = 503, body = Text (hourglass @ '' Session not ready'')\<rparr>, w)
       \<and> fst (post_send sessionId to text outcome w) \<noteq> fst (post_send Undefined to text outcome w)
       \<and> fst (get_send sessionId to text outcome w) \<noteq> fst (get_send Undefined to text outcome w)
       \<and> (\<forall>w2 s2 err. sessions w2 sessionId = Some s2 \<and> ready (heap w2 s2) \<longrightarrow>
             fst (post_send sessionId to text outcome w) \<noteq> fst (post_send sessionId to text (Inl err) w2)
           \<and> fst (get_send sessionId to text outcome w) \<noteq> fst (get_send sessionId to text (Inl err) w2))"
  using assms by (auto simp: post_send_def get_send_def effect_defs)

theorem send_not_ready_rejected_witness:
  "truthy (Str ''s1'') \<and> truthy (Str ''15551234567'') \<and> truthy (Str ''hi'')
   \<and> sessions world_s1 (Str ''s1'') = Some 0 \<and> \<not> ready (heap world_s1 0)
   \<and> sessions world_s1_ready (Str ''s1'') = Some 0 \<and> ready (heap world_s1_ready 0)
   \<and> post_send (Str ''s1'') (Str ''15551234567'') (Str ''hi'') (Inr ()) world_s1 =
           (Inr \<lparr>status = 503, body = Json [(''error'', JString ''Session not ready'')]\<rparr>, world_s1)
   \<and> get_send (Str ''s1'') (Str ''15551234567'') (Str ''hi'') (Inr ()) world_s1 =
           (Inr \<lparr>status = 503, body = Text (hourglass @ '' Session not ready'')\<rparr>, world_s1)
   \<and> fst (post_send (Str ''s1'') (Str ''15551234567'') (Str ''hi'') (Inr ()) world_s1)
        \<noteq> fst (post_send (Str ''s1'') (Str ''15551234567'') (Str ''hi'') (Inl ''boom'') world_s1_ready)
   \<and> fst (get_send (Str ''s1'') (Str ''15551234567'') (Str ''hi'') (Inr ()) world_s1)
        \<noteq> fst (get_send (Str ''s1'') (Str ''15551234567'') (Str ''hi'') (Inl ''boom'') world_s1_ready)"
proof -
  have rdy: "sessions world_s1_ready (Str ''s1'') = Some 0 \<and> ready (heap world_s1_ready 0)"
    by (simp add: world_s1_ready_sessions world_s1_ready_heap)
  have unready: "sessions world_s1 (Str ''s1'') = None \<or>
      (\<exists>session. sessions world_s1 (Str ''s1'') = Some session \<and> \<not> ready (heap world_s1 session))"
    by (simp add: world_s1_sessions world_s1_heap)
  have f1: "truthy (Str ''s1'')" and f2: "truthy (Str ''15551234567'')" and f3: "truthy (Str ''hi'')"
    by simp_all
  note T = send_not_ready_rejected [OF f1 f2 f3 unready, of "Inr ()"]
  have T': "post_send (Str ''s1'') (Str ''15551234567'') (Str ''hi'') (Inr ()) world_s1 =
           (Inr \<lparr>status = 503, body = Json [(''error'', JString ''Session not ready'')]\<rparr>, world_s1)
   \<and> get_send (Str ''s1'') (Str ''15551234567'') (Str ''hi'') (Inr ()) world_s1 =
           (Inr \<lparr>status = 503, body = Text (hourglass @ '' Session not ready'')\<rparr>, world_s1)"
    using T by simp
  have far: "fst (post_send (Str ''s1'') (Str ''15551234567'') (Str ''hi'') (Inr ()) world_s1)
        \<noteq> fst (post_send (Str ''s1'') (Str ''15551234567'') (Str ''hi'') (Inl ''boom'') world_s1_ready)
   \<and> fst (get_send (Str ''s1'') (Str ''15551234567'') (Str ''hi'') (Inr ()) world_s1)
        \<noteq> fst (get_send (Str ''s1'') (Str ''15551234567'') (Str ''hi'') (Inl ''boom'') world_s1_ready)"
    using T rdy by blast
  show ?thesis using T' far rdy f1 f2 f3 by (simp add: world_s1_sessions world_s1_heap)
qed

text \<open>
  C9: For every Send request that reaches the adapter, the recipient passed to
  \<^verbatim>\<open>sendMessage\<close> is the caller's recipient followed by the fixed suffix
  \<^verbatim>\<open>@c.us\<close>, in both Send forms.
\<close>

theorem send_recipient_suffix:
  assumes "truthy sessionId" "to = Str recipient" "recipient \<noteq> []" "truthy text"
    and "sessions w sessionId = Some session" "ready (heap w session)"
  shows "sendMessage_calls (clients (snd (post_send sessionId to text outcome w)) (client (heap w session)))
           = sendMessage_calls (clients w (client (heap w session))) @ [(recipient @ ''@c.us'', text)]
       \<and> sendMessage_calls (clients (snd (get_send sessionId to text outcome w)) (client (heap w session)))
           = sendMessage_calls (clients w (client (heap w session))) @ [(recipient @ ''@c.us'', text)]"
  using assms by (cases outcome) (simp_all add: post_send_def get_send_def effect_defs)

theorem send_recipient_suffix_witness:
  "truthy (Str ''s1'') \<and> truthy (Str ''hi'')
   \<and> sessions world_s1_ready (Str ''s1'') = Some 0 \<and> ready (heap world_s1_ready 0)
   \<and> sendMessage_calls (clients (snd (post_send (Str ''s1'') (Str ''15551234567'') (Str ''hi'') (Inr ()) world_s1_ready)) 0)
        = [(''15551234567@c.us'', Str ''hi'')]
   \<and> sendMessage_calls (clients (snd (get_send (Str ''s1'') (Str ''15551234567'') (Str ''hi'') (Inr ()) world_s1_ready)) 0)
        = [(''15551234567@c.us'', Str ''hi'')]"
  using send_recipient_suffix [of "Str ''s1''" "Str ''15551234567''" "''15551234567''" "Str ''hi''"
      world_s1_ready 0 "Inr ()"]
  by (simp add: world_s1_ready_sessions world_s1_ready_heap world_s1_ready_calls)


section \<open>The listeners\<close>

text \<open>
  C8: The \<^verbatim>\<open>qr\<close> listener stores the encoded image into \<^verbatim>\<open>qrDataUrl\<close> when
  the encoder succeeds; when it fails, the listener logs the error and leaves every
  session object as it was; no error leaves the listener. On the event itself the
  listener only suspends; its body is what runs when it resumes.
\<close>

theorem qr_listener_stores_or_keeps:
  "(\<forall>dataUrl. toDataURL qr = Inr dataUrl \<longrightarrow>
      qrDataUrl (heap (snd (on_qr toDataURL sessionId session qr w)) session) = Some dataUrl)
   \<and> (\<forall>err. toDataURL qr = Inl err \<longrightarrow>
        heap (snd (on_qr toDataURL sessionId session qr w)) = heap w
      \<and> console (snd (on_qr toDataURL sessionId session qr w)) =
          console w @ [Error [''Session '' @ to_str sessionId @ '': QR generation error'', err]])
   \<and> fst (on_qr toDataURL sessionId session qr w) = Inr ()
   \<and> call (QrListener sessionId session) qr w = suspend (QrTask sessionId session qr) w
   \<and> resume toDataURL (QrTask sessionId session qr) w = snd (on_qr toDataURL sessionId session qr w)
   \<and> unhandled (resume toDataURL (QrTask sessionId session qr) w) = unhandled w"
  by (cases "toDataURL qr") (simp_all add: on_qr_def effect_defs)

theorem qr_listener_stores_or_keeps_witness:
  "stub_toDataURL ''TOKEN2'' = Inr ''data:image/png;base64,TOKEN2''
   \<and> qrDataUrl (heap (snd (on_qr stub_toDataURL (Str ''s1'') 0 ''TOKEN2'' world_s1)) 0)
       = Some ''data:image/png;base64,TOKEN2''
   \<and> stub_toDataURL [] = Inl ''No input text''
   \<and> qrDataUrl (heap (snd (on_qr stub_toDataURL (Str ''s1'') 0 [] world_s1)) 0)
       = Some ''data:image/png;base64,TOKEN1''
   \<and> fst (on_qr stub_toDataURL (Str ''s1'') 0 [] world_s1) = Inr ()"
  using qr_listener_stores_or_keeps [of stub_toDataURL "''TOKEN2''" "Str ''s1''" 0 world_s1]
    qr_listener_stores_or_keeps [of stub_toDataURL "[]" "Str ''s1''" 0 world_s1]
  by (simp add: stub_toDataURL_def world_s1_heap)

text \<open>
  C7: For every session of a reachable state, the \<^verbatim>\<open>disconnected\<close> event of its
  adapter sets \<^verbatim>\<open>ready\<close> to false, clears \<^verbatim>\<open>qrDataUrl\<close>, logs the reason and
  calls \<^verbatim>\<open>initialize\<close> again on that same adapter; no adapter is constructed,
  and whatever happens later the session keeps its adapter and the registry keeps
  the session object under its identifier.
\<close>

theorem disconnected_reuses_adapter:
  assumes "w = run toDataURL pre init_world" "sessions w sessionId = Some session"
    and "c = client (heap w session)" "w' = emit c DISCONNECTED reason w"
  shows "ready (heap w' session) = False \<and> qrDataUrl (heap w' session) = None
     \<and> initialize_calls (clients w' c) = Suc (initialize_calls (clients w c))
     \<and> console w' = console w @ [Log [''Session '' @ to_str sessionId @ '': disconnected'', reason]]
     \<and> client (heap w' session) = c \<and> sessions w' = sessions w \<and> next_cref w' = next_cref w
     \<and> (\<forall>acts. client (heap (run toDataURL acts w) session) = c
              \<and> sessions (run toDataURL acts w) sessionId = Some session)"
proof -
  have "wf w" unfolding assms(1) by (rule wf_reachable)
  from reachable_fresh [OF this assms(2)]
  have lt: "session < next_sref w"
    and ls: "listeners (clients w c) = handlers_of sessionId session c"
    by (simp_all add: assms(3))
  have w': "w' = on_disconnected sessionId session c reason w"
    unfolding assms(4) using ls by (rule emit_handlers_disconnected)
  have "\<forall>acts. client (heap (run toDataURL acts w) session) = c
      \<and> sessions (run toDataURL acts w) sessionId = Some session"
    by (simp add: run_client [OF lt] run_sessions [OF assms(2)] assms(3))
  then show ?thesis
    by (simp add: w' on_disconnected_def effect_defs assms(3))
qed

theorem disconnected_reuses_adapter_witness:
  "world_s1_ready = run stub_toDataURL
      [GetRegister (Str ''s1''), Emit 0 QR ''TOKEN1'', Resume 0, Emit 0 READY []] init_world
   \<and> sessions world_s1_ready (Str ''s1'') = Some 0
   \<and> client (heap world_s1_ready 0) = 0
   \<and> ready (heap world_s1_ready 0)
   \<and> qrDataUrl (heap world_s1_ready 0) = Some ''data:image/png;base64,TOKEN1''
   \<and> initialize_calls (clients world_s1_ready 0) = 1
   \<and> \<not> ready (heap (emit 0 DISCONNECTED ''LOGOUT'' world_s1_ready) 0)
   \<and> qrDataUrl (heap (emit 0 DISCONNECTED ''LOGOUT'' world_s1_ready) 0) = None
   \<and> initialize_calls (clients (emit 0 DISCONNECTED ''LOGOUT'' world_s1_ready) 0) = 2
   \<and> client (heap (emit 0 DISCONNECTED ''LOGOUT'' world_s1_ready) 0) = 0
   \<and> sessions (emit 0 DISCONNECTED ''LOGOUT'' world_s1_ready) (Str ''s1'') = Some 0
   \<and> next_cref (emit 0 DISCONNECTED ''LOGOUT'' world_s1_ready) = 1"
proof -
  have r: "world_s1_ready = run stub_toDataURL
      [GetRegister (Str ''s1''), Emit 0 QR ''TOKEN1'', Resume 0, Emit 0 READY []] init_world"
    by (simp add: world_s1_ready_def world_s1_def world_s1_issued_def)
  have c: "0 = client (heap world_s1_ready 0)"
    by (simp add: world_s1_ready_heap)
  have i: "initialize_calls (clients world_s1_ready 0) = 1 \<and> next_cref world_s1_ready = 1"
    by (simp add: world_s1_ready_clients world_s1_clients_0 world_s1_ready_counters)
  note T = disconnected_reuses_adapter [OF r world_s1_ready_sessions c refl, of "''LOGOUT''"]
  have "\<not> ready (heap (emit 0 DISCONNECTED ''LOGOUT'' world_s1_ready) 0)
   \<and> qrDataUrl (heap (emit 0 DISCONNECTED ''LOGOUT'' world_s1_ready) 0) = None
   \<and> initialize_calls (clients (emit 0 DISCONNECTED ''LOGOUT'' world_s1_ready) 0) = 2
   \<and> client (heap (emit 0 DISCONNECTED ''LOGOUT'' world_s1_ready) 0) = 0
   \<and> sessions (emit 0 DISCONNECTED ''LOGOUT'' world_s1_ready) (Str ''s1'') = Some 0
   \<and> next_cref (emit 0 DISCONNECTED ''LOGOUT'' world_s1_ready) = 1"
    using T i by (simp add: world_s1_ready_sessions)
  then show ?thesis
    using r i by (simp add: world_s1_ready_sessions world_s1_ready_heap)
qed

section \<open>Idempotence of initSession\<close>





section \<open>Reading and validating\<close>

text \<open>
  C6: For every identifier (a non-empty \<^verbatim>\<open>sessionId\<close>), Health is a pure read:
  it answers "initializing" when the identifier is absent from the registry or the
  session is not ready, "ready" otherwise, and returns the state as it was. No HTTP
  handler changes \<^verbatim>\<open>ready\<close> or \<^verbatim>\<open>qrDataUrl\<close> of a session object that exists,
  neither on arrival nor in the continuation of a send; only the listeners write
  them.
\<close>

theorem health_is_pure_read:
  assumes "truthy sessionId"
  shows "get_health sessionId w =
           (\<lparr>status = 200,
             body = Json [(''status'', JString
               (if \<exists>session. sessions w sessionId = Some session \<and> ready (heap w session)
                then ''ready'' else ''initializing''))]\<rparr>, w)
     \<and> (\<forall>a s. is_request a \<and> s < next_sref w \<longrightarrow>
           ready (heap (step toDataURL a w) s) = ready (heap w s)
         \<and> qrDataUrl (heap (step toDataURL a w) s) = qrDataUrl (heap w s))
     \<and> (\<forall>t. \<not> is_QrTask t \<longrightarrow> heap (resume toDataURL t w) = heap w)
     \<and> (\<forall>k to text outcome.
           heap (snd (post_send k to text outcome w)) = heap w
         \<and> heap (snd (get_send k to text outcome w)) = heap w)"
proof -
  have "heap (snd (post_send k t x outcome w)) = heap w
      \<and> heap (snd (get_send k t x outcome w)) = heap w" for k t x outcome
    by (cases outcome)
      (auto simp: post_send_def get_send_def effect_defs split: option.splits)
  then show ?thesis
    using assms by (auto simp: get_health_def request_heap_old resume_heap split: option.splits)
qed

theorem health_is_pure_read_witness:
  "truthy (Str ''s1'') \<and> truthy (Str ''nobody'')
   \<and> get_health (Str ''s1'') world_s1_ready =
        (\<lparr>status = 200, body = Json [(''status'', JString ''ready'')]\<rparr>, world_s1_ready)
   \<and> get_health (Str ''s1'') world_s1 =
        (\<lparr>status = 200, body = Json [(''status'', JString ''initializing'')]\<rparr>, world_s1)
   \<and> get_health (Str ''nobody'') world_s1_ready =
        (\<lparr>status = 200, body = Json [(''status'', JString ''initializing'')]\<rparr>, world_s1_ready)
   \<and> is_request (GetRegister (Str ''s2'')) \<and> 0 < next_sref world_s1_ready
   \<and> ready (heap (step stub_toDataURL (GetRegister (Str ''s2'')) world_s1_ready) 0)
   \<and> qrDataUrl (heap (step stub_toDataURL (GetRegister (Str ''s2'')) world_s1_ready) 0)
        = Some ''data:image/png;base64,TOKEN1''
   \<and> heap (resume stub_toDataURL (PostSendTask (Str ''s1'') (Inl ''boom'')) world_s1_ready)
        = heap world_s1_ready"
proof -
  have t1: "truthy (Str ''s1'')" and t2: "truthy (Str ''nobody'')" by simp_all
  have n: "sessions world_s1_ready (Str ''nobody'') = None"
    by (simp add: world_s1_ready_registry)
  have c: "0 < next_sref world_s1_ready"
    by (simp add: world_s1_ready_counters)
  note A = health_is_pure_read [OF t1, of world_s1_ready stub_toDataURL]
  note B = health_is_pure_read [OF t1, of world_s1 stub_toDataURL]
  note C = health_is_pure_read [OF t2, of world_s1_ready stub_toDataURL]
  have D: "ready (heap (step stub_toDataURL (GetRegister (Str ''s2'')) world_s1_ready) 0)
      = ready (heap world_s1_ready 0)
    \<and> qrDataUrl (heap (step stub_toDataURL (GetRegister (Str ''s2'')) world_s1_ready) 0)
      = qrDataUrl (heap world_s1_ready 0)"
    using A c by (meson is_request.simps)
  have E: "heap (resume stub_toDataURL (PostSendTask (Str ''s1'') (Inl ''boom'')) world_s1_ready)
        = heap world_s1_ready"
    using A by (meson is_QrTask.simps)
  show ?thesis
    using A B C D E n c
    by (simp add: world_s1_sessions world_s1_heap world_s1_ready_sessions world_s1_ready_heap)
qed

text \<open>
  C10: In Register, Health and both Send forms an empty string for
  \<^verbatim>\<open>sessionId\<close>, \<^verbatim>\<open>to\<close> or \<^verbatim>\<open>text\<close> is answered exactly as the absent field is:
  with the 400 validation error and the state as it was. In particular no run of
  the process ever registers a session under the empty string.
\<close>

theorem empty_string_is_missing:
  "get_register (Str []) w =
     (\<lparr>status = 400, body = Json [(''error'', JString ''Missing sessionId'')]\<rparr>, w)
   \<and> get_register (Str []) w = get_register Undefined w
   \<and> get_health (Str []) w =
     (\<lparr>status = 400, body = Json [(''error'', JString ''Missing sessionId'')]\<rparr>, w)
   \<and> get_health (Str []) w = get_health Undefined w
   \<and> (sessionId = Str [] \<or> to = Str [] \<or> text = Str [] \<longrightarrow>
        post_send sessionId to text outcome w =
          (Inr \<lparr>status = 400,
                body = Json [(''error'', JString ''Missing sessionId, to, or text'')]\<rparr>, w)
      \<and> get_send sessionId to text outcome w =
          (Inr \<lparr>status = 400,
                body = Text (cross_mark @ '' Missing sessionId, to, or text'')\<rparr>, w))
   \<and> post_send (Str []) to text outcome w = post_send Undefined to text outcome w
   \<and> post_send sessionId (Str []) text outcome w = post_send sessionId Undefined text outcome w
   \<and> post_send sessionId to (Str []) outcome w = post_send sessionId to Undefined outcome w
   \<and> get_send (Str []) to text outcome w = get_send Undefined to text outcome w
   \<and> get_send sessionId (Str []) text outcome w = get_send sessionId Undefined text outcome w
   \<and> get_send sessionId to (Str []) outcome w = get_send sessionId to Undefined outcome w
   \<and> sessions (run toDataURL acts init_world) (Str []) = None"
proof -
  have "sessions (run toDataURL acts init_world) (Str []) = None"
    by (rule registered_truthy) (simp_all add: wf_reachable)
  then show ?thesis
    by (auto simp: get_register_def get_health_def post_send_def get_send_def)
qed

theorem empty_string_is_missing_witness:
  "sessions world_s1_ready (Str ''s1'') = Some 0 \<and> ready (heap world_s1_ready 0)
   \<and> post_send (Str ''s1'') (Str []) (Str ''hi'') (Inr ()) world_s1_ready =
       (Inr \<lparr>status = 400,
             body = Json [(''error'', JString ''Missing sessionId, to, or text'')]\<rparr>, world_s1_ready)
   \<and> get_send (Str ''s1'') (Str ''15551234567'') (Str []) (Inr ()) world_s1_ready =
       (Inr \<lparr>status = 400,
             body = Text (cross_mark @ '' Missing sessionId, to, or text'')\<rparr>, world_s1_ready)
   \<and> get_register (Str []) world_s1_ready =
       (\<lparr>status = 400, body = Json [(''error'', JString ''Missing sessionId'')]\<rparr>, world_s1_ready)
   \<and> sessions (run stub_toDataURL
        [GetRegister (Str []), GetRegister (Str ''s1''), PostSend (Str []) (Str []) (Str []) (Inr ())]
        init_world) (Str []) = None"
  using empty_string_is_missing [of world_s1_ready "Str ''s1''" "Str []" "Str ''hi''" "Inr ()"
      stub_toDataURL
      "[GetRegister (Str []), GetRegister (Str ''s1''), PostSend (Str []) (Str []) (Str []) (Inr ())]"]
    empty_string_is_missing [of world_s1_ready "Str ''s1''" "Str ''15551234567''" "Str []" "Inr ()"
      stub_toDataURL "[]"]
  by (simp add: world_s1_ready_sessions world_s1_ready_heap)


section \<open>The two forms of Send\<close>

text \<open>
  C1: For the same fields, state and adapter outcome, GET /send and POST /send
  answer with the same status (400 validation, 503 not ready, 200 success, 500
  adapter failure), make the same \<^verbatim>\<open>sendMessage\<close> call and leave the same state
  up to the console. The link form answers in fixed plain texts; on adapter failure
  only the command form carries the adapter's message in its answer, and its console
  line names the session where the link form's does not.
\<close>

theorem send_forms_agree:
  "\<exists>rp rg wp wg.
      post_send sessionId to text outcome w = (Inr rp, wp)
    \<and> get_send sessionId to text outcome w = (Inr rg, wg)
    \<and> status rg = status rp
    \<and> wg\<lparr>console := []\<rparr> = wp\<lparr>console := []\<rparr>
    \<and> (status rp = 400 \<and> wp = w \<and> wg = w
          \<and> body rp = Json [(''error'', JString ''Missing sessionId, to, or text'')]
          \<and> body rg = Text (cross_mark @ '' Missing sessionId, to, or text'')
        \<or> status rp = 503 \<and> wp = w \<and> wg = w
          \<and> body rp = Json [(''error'', JString ''Session not ready'')]
          \<and> body rg = Text (hourglass @ '' Session not ready'')
        \<or> status rp = 200 \<and> outcome = Inr () \<and> wg = wp \<and> console wp = console w
          \<and> body rp = Json [(''success'', JBool True)]
          \<and> body rg = Text (check_mark @ '' Message sent successfully!'')
        \<or> (\<exists>err. status rp = 500 \<and> outcome = Inl err
          \<and> body rp = Json [(''error'', JString err)]
          \<and> body rg = Text (cross_mark @ '' Failed to send message'')
          \<and> console wp =
               console w @ [Error [''Session '' @ to_str sessionId @ '' send error:'', err]]
          \<and> console wg = console w @ [Error [''Send error:'', err]]))"
  by (cases outcome) (auto simp: post_send_def get_send_def effect_defs split: option.splits)

theorem send_forms_agree_witness:
  "post_send (Str ''s1'') (Str ''15551234567'') (Str ''hi'') (Inr ()) world_s1_ready =
     (Inr \<lparr>status = 200, body = Json [(''success'', JBool True)]\<rparr>,
      snd (get_send (Str ''s1'') (Str ''15551234567'') (Str ''hi'') (Inr ()) world_s1_ready))
   \<and> fst (get_send (Str ''s1'') (Str ''15551234567'') (Str ''hi'') (Inr ()) world_s1_ready) =
     Inr \<lparr>status = 200, body = Text (check_mark @ '' Message sent successfully!'')\<rparr>
   \<and> console (snd (post_send (Str ''s1'') (Str ''15551234567'') (Str ''hi'') (Inl ''boom'')
        world_s1_ready)) =
     console world_s1_ready @ [Error [''Session s1 send error:'', ''boom'']]
   \<and> console (snd (get_send (Str ''s1'') (Str ''15551234567'') (Str ''hi'') (Inl ''boom'')
        world_s1_ready)) =
     console world_s1_ready @ [Error [''Send error:'', ''boom'']]"
  using send_forms_agree [of "Str ''s1''" "Str ''15551234567''" "Str ''hi''" "Inr ()" world_s1_ready]
    send_forms_agree [of "Str ''s1''" "Str ''15551234567''" "Str ''hi''" "Inl ''boom''"
      world_s1_ready]
  by (simp add: post_send_def get_send_def effect_defs world_s1_ready_sessions world_s1_ready_heap)

text \<open>
  The link form's failure answer does not carry the adapter's message: it is the
  same text for two different failures, where the command form reports the message.
\<close>

theorem link_send_failure_counterexample:
  "fst (post_send (Str ''s1'') (Str ''15551234567'') (Str ''hi'') (Inl ''boom'') world_s1_ready) =
     Inr \<lparr>status = 500, body = Json [(''error'', JString ''boom'')]\<rparr>
   \<and> fst (get_send (Str ''s1'') (Str ''15551234567'') (Str ''hi'') (Inl ''boom'') world_s1_ready) =
     Inr \<lparr>status = 500, body = Text (cross_mark @ '' Failed to send message'')\<rparr>
   \<and> fst (get_send (Str ''s1'') (Str ''15551234567'') (Str ''hi'') (Inl ''Evaluation failed'')
        world_s1_ready) =
     Inr \<lparr>status = 500, body = Text (cross_mark @ '' Failed to send message'')\<rparr>"
  by (simp add: post_send_def get_send_def effect_defs world_s1_ready_sessions world_s1_ready_heap)

section \<open>A run of the model\<close>

text \<open>
  Register \<^verbatim>\<open>s1\<close>: the pairing image is null. After the token \<^verbatim>\<open>TOKEN1\<close> is
  encoded Register answers the image; after \<^verbatim>\<open>ready\<close> Health answers "ready"
  and a send succeeds with one adapter call to the suffixed recipient, also when the
  adapter disconnects while the send is awaited; after \<^verbatim>\<open>disconnected\<close> Health
  answers "initializing" again.
\<close>

lemma scenario_s1:
  "fst (get_register (Str ''s1'') init_world) =
     \<lparr>status = 200, body = Json [(''qrDataUrl'', JNull)]\<rparr>
   \<and> fst (get_register (Str ''s1'') world_s1) =
     \<lparr>status = 200, body = Json [(''qrDataUrl'', JString ''data:image/png;base64,TOKEN1'')]\<rparr>
   \<and> fst (get_health (Str ''s1'') world_s1_ready) =
     \<lparr>status = 200, body = Json [(''status'', JString ''ready'')]\<rparr>
   \<and> fst (post_send (Str ''s1'') (Str ''15551234567'') (Str ''hi'') (Inr ()) world_s1_ready) =
     Inr \<lparr>status = 200, body = Json [(''success'', JBool True)]\<rparr>
   \<and> sendMessage_calls
        (clients (snd (post_send (Str ''s1'') (Str ''15551234567'') (Str ''hi'') (Inr ())
           world_s1_ready)) 0) = [(''15551234567@c.us'', Str ''hi'')]
   \<and> sendMessage_calls
        (clients (run stub_toDataURL
           [PostSend (Str ''s1'') (Str ''15551234567'') (Str ''hi'') (Inr ()),
            Emit 0 DISCONNECTED ''LOGOUT'', Resume 0] world_s1_ready) 0) =
        [(''15551234567@c.us'', Str ''hi'')]
   \<and> fst (get_health (Str ''s1'')
        (step stub_toDataURL (Emit 0 DISCONNECTED ''LOGOUT'') world_s1_ready)) =
     \<lparr>status = 200, body = Json [(''status'', JString ''initializing'')]\<rparr>"
proof -
  have a: "fst (get_register (Str ''s1'') init_world) =
     \<lparr>status = 200, body = Json [(''qrDataUrl'', JNull)]\<rparr>"
    by (simp add: run_defs json_of_qrDataUrl_def)
  have b: "fst (get_register (Str ''s1'') world_s1) =
     \<lparr>status = 200, body = Json [(''qrDataUrl'', JString ''data:image/png;base64,TOKEN1'')]\<rparr>"
    by (simp add: get_register_known [OF _ world_s1_sessions] world_s1_heap json_of_qrDataUrl_def)
  have c: "fst (get_health (Str ''s1'') world_s1_ready) =
     \<lparr>status = 200, body = Json [(''status'', JString ''ready'')]\<rparr>"
    by (simp add: get_health_def world_s1_ready_sessions world_s1_ready_heap)
  have d: "fst (post_send (Str ''s1'') (Str ''15551234567'') (Str ''hi'') (Inr ()) world_s1_ready) =
     Inr \<lparr>status = 200, body = Json [(''success'', JBool True)]\<rparr>
   \<and> sendMessage_calls
        (clients (snd (post_send (Str ''s1'') (Str ''15551234567'') (Str ''hi'') (Inr ())
           world_s1_ready)) 0) = [(''15551234567@c.us'', Str ''hi'')]"
    by (simp add: post_send_def effect_defs world_s1_ready_sessions world_s1_ready_heap
        world_s1_ready_calls)
  have l: "listeners (clients world_s1_ready 0) = handlers_of (Str ''s1'') 0 0"
    by (simp add: world_s1_ready_clients world_s1_listeners)
  have e: "fst (get_health (Str ''s1'')
        (step stub_toDataURL (Emit 0 DISCONNECTED ''LOGOUT'') world_s1_ready)) =
     \<lparr>status = 200, body = Json [(''status'', JString ''initializing'')]\<rparr>"
    by (simp add: emit_handlers_disconnected [OF l] get_health_def on_disconnected_def
        effect_defs world_s1_ready_sessions)
  note su = world_s1_ready_suspended
  have f: "sendMessage_calls
        (clients (run stub_toDataURL
           [PostSend (Str ''s1'') (Str ''15551234567'') (Str ''hi'') (Inr ()),
            Emit 0 DISCONNECTED ''LOGOUT'', Resume 0] world_s1_ready) 0) =
        [(''15551234567@c.us'', Str ''hi'')]"
    by (simp add: post_send_arrive_def post_send_settle_def world_s1_ready_sessions
        world_s1_ready_heap world_s1_ready_calls su l emit_def handlers_of_def
        on_disconnected_def effect_defs)
  show ?thesis using a b c d e f by (simp del: run.simps)
qed

end
